theory Spec2Isabelle
  imports Main
begin

section \<open>JavaScript values\<close>

text \<open>
  The values that flow through \<^verbatim>\<open>InventorySourceForm.jsx\<close> are JSON data delivered by the
  REST client (the source entity, the options payload) and the literals of the component
  itself.  A JavaScript object is a list of (property name, value) pairs in insertion order;
  the numbers of the entity (verbosity, cache timeout) are integers.
\<close>

datatype jsval =
    JUndefined
  | JNull
  | JBool bool
  | JNum int
  | JStr string
  | JObj "(string \<times> jsval) list"

type_synonym jsobject = "(string \<times> jsval) list"

text \<open>Truthiness, as tested by \<^verbatim>\<open>||\<close>, \<^verbatim>\<open>&&\<close> and \<^verbatim>\<open>if\<close>.\<close>

fun truthy :: "jsval \<Rightarrow> bool" where
  "truthy JUndefined = False"
| "truthy JNull = False"
| "truthy (JBool b) = b"
| "truthy (JNum n) = (n \<noteq> 0)"
| "truthy (JStr s) = (s \<noteq> [])"
| "truthy (JObj ps) = True"

text \<open>\<^verbatim>\<open>a || b\<close>: the left operand when it is truthy, the right operand otherwise.\<close>

definition orElse :: "jsval \<Rightarrow> jsval \<Rightarrow> jsval" where
  "orElse a b = (if truthy a then a else b)"

text \<open>
  Reading a property \<^verbatim>\<open>o.k\<close> of an object: the stored value, \<^verbatim>\<open>undefined\<close> when the
  object has no such property.
\<close>

definition getProp :: "jsobject \<Rightarrow> string \<Rightarrow> jsval" where
  "getProp ps k = (case map_of ps k of Some v \<Rightarrow> v | None \<Rightarrow> JUndefined)"

text \<open>
  Optional chaining \<^verbatim>\<open>v?.k\<close>: \<^verbatim>\<open>undefined\<close> when \<open>v\<close> is \<^verbatim>\<open>null\<close> or
  \<^verbatim>\<open>undefined\<close>, the property otherwise.  None of the property names read by this
  component exists on a boolean, a number or a string, so the read gives \<^verbatim>\<open>undefined\<close>
  there.
\<close>

fun optChain :: "jsval \<Rightarrow> string \<Rightarrow> jsval" where
  "optChain (JObj ps) k = getProp ps k"
| "optChain v k = JUndefined"

text \<open>
  Writing a property: an existing property keeps its position and takes the new value, a
  new property is appended.  This is what an object literal does with a later duplicate key
  (\<^verbatim>\<open>{...o, k: v}\<close>) and what the form engine does to its copy of the values when it
  writes a value other than \<^verbatim>\<open>undefined\<close>.
\<close>

fun setProp :: "string \<Rightarrow> jsval \<Rightarrow> jsobject \<Rightarrow> jsobject" where
  "setProp k v [] = [(k, v)]"
| "setProp k v ((k', v') # ps) =
     (if k' = k then (k, v) # ps else (k', v') # setProp k v ps)"

text \<open>\<^verbatim>\<open>delete o[k]\<close>: the object without the property.\<close>

definition delProp :: "string \<Rightarrow> jsobject \<Rightarrow> jsobject" where
  "delProp k ps = filter (\<lambda>(k', v'). k' \<noteq> k) ps"

text \<open>\<^verbatim>\<open>Object.keys\<close>: the property names in insertion order.\<close>

definition Object_keys :: "jsobject \<Rightarrow> string list" where
  "Object_keys ps = map fst ps"

section \<open>Source-type choices\<close>

text \<open>
  The options payload; the component reads \<^verbatim>\<open>options.actions.GET.source.choices\<close>, a
  list of \<^verbatim>\<open>[choice, label]\<close> pairs.
\<close>

record source_options =
  choices :: "(string \<times> string) list"

text \<open>An entry of the \<^verbatim>\<open>data\<close> of a select; an absent \<^verbatim>\<open>isDisabled\<close> is \<open>False\<close>.\<close>

record select_option =
  opt_label :: string
  opt_key :: string
  opt_value :: string
  isDisabled :: bool

definition buildSourceChoiceOptions :: "source_options \<Rightarrow> select_option list" where
  "buildSourceChoiceOptions options =
     (let sourceChoices =
            map (\<lambda>(choice, label).
                   \<lparr>opt_label = label, opt_key = choice, opt_value = choice, isDisabled = False\<rparr>)
                (choices options)
      in filter (\<lambda>opt. opt_key opt \<noteq> ''file'') sourceChoices)"

section \<open>Form state and the reset routine\<close>

text \<open>
  The part of the form engine's context that \<^verbatim>\<open>InventorySourceFormFields\<close> uses: the
  working values and the initial values.  \<^verbatim>\<open>setFieldValue\<close> writes one field of the working
  values with the engine's \<^verbatim>\<open>setIn\<close>; \<^verbatim>\<open>resetForm({values})\<close> replaces the working values by
  the given object, which also becomes the engine's new initial values.
\<close>

record formik =
  ctx_values :: jsobject
  ctx_initialValues :: jsobject

text \<open>
  The engine's \<^verbatim>\<open>setIn(obj, path, value)\<close> for a path of one name: the object itself when
  the property already reads as the value, the object without the property when the value
  is \<^verbatim>\<open>undefined\<close>, the object with the property written otherwise.  (Where the engine
  compares two objects by identity and finds them different, it writes one for the other;
  the result has the same content.)
\<close>

definition setIn :: "jsobject \<Rightarrow> string \<Rightarrow> jsval \<Rightarrow> jsobject" where
  "setIn obj path v =
     (if getProp obj path = v then obj
      else if v = JUndefined then delProp path obj
      else setProp path v obj)"

definition setFieldValue :: "string \<Rightarrow> jsval \<Rightarrow> formik \<Rightarrow> formik" where
  "setFieldValue field v ctx = ctx\<lparr>ctx_values := setIn (ctx_values ctx) field v\<rparr>"

definition resetForm :: "jsobject \<Rightarrow> formik \<Rightarrow> formik" where
  "resetForm vs ctx = ctx\<lparr>ctx_values := vs, ctx_initialValues := vs\<rparr>"

text \<open>The \<^verbatim>\<open>defaults\<close> literal of \<^verbatim>\<open>resetSubFormFields\<close>.\<close>

definition defaults :: "string \<Rightarrow> jsobject" where
  "defaults sourceType =
     [(''credential'', JNull),
      (''group_by'', JStr ''''),
      (''instance_filters'', JStr ''''),
      (''overwrite'', JBool False),
      (''overwrite_vars'', JBool False),
      (''source'', JStr sourceType),
      (''source_path'', JStr ''''),
      (''source_project'', JNull),
      (''source_regions'', JStr ''''),
      (''source_script'', JNull),
      (''source_vars'', JStr (''---'' @ [CHR 0x0A])),
      (''update_cache_timeout'', JNum 0),
      (''update_on_launch'', JBool False),
      (''update_on_project_update'', JBool False),
      (''verbosity'', JNum 1)]"

text \<open>
  \<^verbatim>\<open>resetSubFormFields(sourceType)\<close>.  The selected code is a string, so
  \<^verbatim>\<open>sourceType === initialValues.source\<close> holds exactly when the initial source is that
  string.  The first branch builds \<^verbatim>\<open>{...initialValues, name, description,
  custom_virtualenv, source}\<close>; the second runs \<^verbatim>\<open>setFieldValue\<close> over the keys of
  \<^verbatim>\<open>defaults\<close>.
\<close>

definition resetSubFormFields :: "formik \<Rightarrow> string \<Rightarrow> formik" where
  "resetSubFormFields ctx sourceType =
     (if JStr sourceType = getProp (ctx_initialValues ctx) ''source''
      then resetForm
             (setProp ''source'' (JStr sourceType)
               (setProp ''custom_virtualenv'' (getProp (ctx_values ctx) ''custom_virtualenv'')
                 (setProp ''description'' (getProp (ctx_values ctx) ''description'')
                   (setProp ''name'' (getProp (ctx_values ctx) ''name'')
                     (ctx_initialValues ctx)))))
             ctx
      else foldl (\<lambda>c label. setFieldValue label (getProp (defaults sourceType) label) c)
             ctx (Object_keys (defaults sourceType)))"

section \<open>Initial values\<close>

text \<open>
  The \<^verbatim>\<open>initialValues\<close> literal of \<^verbatim>\<open>InventorySourceForm\<close>, from the optional
  \<^verbatim>\<open>source\<close> prop (\<^verbatim>\<open>undefined\<close> or \<^verbatim>\<open>null\<close> when a new source is created).
\<close>

definition initialValues :: "jsval \<Rightarrow> jsobject" where
  "initialValues source =
     [(''credential'', orElse (optChain (optChain source ''summary_fields'') ''credential'') JNull),
      (''custom_virtualenv'', orElse (optChain source ''custom_virtualenv'') (JStr '''')),
      (''description'', orElse (optChain source ''description'') (JStr '''')),
      (''group_by'', orElse (optChain source ''group_by'') (JStr '''')),
      (''instance_filters'', orElse (optChain source ''instance_filters'') (JStr '''')),
      (''name'', orElse (optChain source ''name'') (JStr '''')),
      (''overwrite'', orElse (optChain source ''overwrite'') (JBool False)),
      (''overwrite_vars'', orElse (optChain source ''overwrite_vars'') (JBool False)),
      (''source'', orElse (optChain source ''source'') (JStr '''')),
      (''source_path'',
         if optChain source ''source_path'' = JStr '''' then JStr ''/ (project root)''
         else JStr ''''),
      (''source_project'',
         orElse (optChain (optChain source ''summary_fields'') ''source_project'') JNull),
      (''source_regions'', orElse (optChain source ''source_regions'') (JStr '''')),
      (''source_script'',
         orElse (optChain (optChain source ''summary_fields'') ''source_script'') JNull),
      (''source_vars'', orElse (optChain source ''source_vars'') (JStr (''---'' @ [CHR 0x0A]))),
      (''update_cache_timeout'', orElse (optChain source ''update_cache_timeout'') (JNum 0)),
      (''update_on_launch'', orElse (optChain source ''update_on_launch'') (JBool False)),
      (''update_on_project_update'',
         orElse (optChain source ''update_on_project_update'') (JBool False)),
      (''verbosity'', orElse (optChain source ''verbosity'') (JNum 1))]"

text \<open>The form engine is created with these values as working and initial values.\<close>

definition mountFormik :: "jsval \<Rightarrow> formik" where
  "mountFormik source =
     \<lparr>ctx_values = initialValues source, ctx_initialValues = initialValues source\<rparr>"

section \<open>The rendered form fields\<close>

text \<open>
  What \<^verbatim>\<open>InventorySourceFormFields\<close> returns, as data.  Texts are the message ids handed to
  the translation lookup.  A select carries the \<^verbatim>\<open>name\<close> and \<^verbatim>\<open>value\<close> of the field
  it is bound to (the spread of \<^verbatim>\<open>useField\<close>'s result) and its \<^verbatim>\<open>data\<close>.  The
  touched and error marks that the engine keeps for the source group are not part of this
  view.
\<close>

record form_field =
  fld_id :: string
  fld_label :: string
  fld_name :: string
  fld_type :: string
  fld_isRequired :: bool

record select =
  sel_id :: string
  sel_name :: string
  sel_value :: jsval
  sel_data :: "select_option list"

text \<open>The eleven sub-forms; four of them receive the options payload.\<close>

datatype sub_form =
    AzureSubForm source_options
  | CloudFormsSubForm
  | CustomScriptSubForm
  | EC2SubForm source_options
  | GCESubForm source_options
  | OpenStackSubForm
  | VirtualizationSubForm
  | SatelliteSubForm
  | SCMSubForm
  | TowerSubForm
  | VMwareSubForm source_options

text \<open>
  The child produced by indexing the object literal of sub-forms with the value of the source
  field: the element stored under that key, nothing (\<^verbatim>\<open>undefined\<close>) for a key the literal
  does not have, and a member inherited from \<^verbatim>\<open>Object.prototype\<close> for the names that every
  object literal answers to.
\<close>

datatype child = Element sub_form | NoChild | PrototypeMember

definition subFormTable :: "source_options \<Rightarrow> (string \<times> sub_form) list" where
  "subFormTable sourceOptions =
     [(''azure_rm'', AzureSubForm sourceOptions),
      (''cloudforms'', CloudFormsSubForm),
      (''custom'', CustomScriptSubForm),
      (''ec2'', EC2SubForm sourceOptions),
      (''gce'', GCESubForm sourceOptions),
      (''openstack'', OpenStackSubForm),
      (''rhv'', VirtualizationSubForm),
      (''satellite6'', SatelliteSubForm),
      (''scm'', SCMSubForm),
      (''tower'', TowerSubForm),
      (''vmware'', VMwareSubForm sourceOptions)]"

definition objectPrototypeKeys :: "string list" where
  "objectPrototypeKeys =
     [''constructor'', ''hasOwnProperty'', ''isPrototypeOf'', ''propertyIsEnumerable'',
      ''toLocaleString'', ''toString'', ''valueOf'', ''__proto__'', ''__defineGetter__'',
      ''__defineSetter__'', ''__lookupGetter__'', ''__lookupSetter__'']"

text \<open>
  A value that is not a string is converted to one before the lookup (\<^verbatim>\<open>"null"\<close>,
  \<^verbatim>\<open>"undefined"\<close>, \<^verbatim>\<open>"true"\<close>, digits, \<^verbatim>\<open>"[object Object]"\<close>); none of these is a key of
  the literal or of the prototype.
\<close>

definition subFormFor :: "source_options \<Rightarrow> jsval \<Rightarrow> child" where
  "subFormFor sourceOptions v =
     (case v of
        JStr s \<Rightarrow>
          (case map_of (subFormTable sourceOptions) s of
             Some el \<Rightarrow> Element el
           | None \<Rightarrow> if s \<in> set objectPrototypeKeys then PrototypeMember else NoChild)
      | _ \<Rightarrow> NoChild)"

record sub_form_layout =
  layout_title :: string
  layout_body :: child

definition defaultVenv :: select_option where
  "defaultVenv =
     \<lparr>opt_label = ''Use Default Ansible Environment'', opt_key = ''default'',
      opt_value = ''/venv/ansible/'', isDisabled = False\<rparr>"

record fields_view =
  name_field :: form_field
  description_field :: form_field
  source_select :: select
  venv_select :: "select option"
  source_details :: "sub_form_layout option"

text \<open>
  \<^verbatim>\<open>InventorySourceFormFields\<close>.  \<open>custom_virtualenvs\<close> is the list read from the
  configuration context, \<open>None\<close> when the context has none (\<^verbatim>\<open>undefined\<close> or \<^verbatim>\<open>null\<close>);
  an array, empty or not, is truthy.
\<close>

definition InventorySourceFormFields ::
    "source_options \<Rightarrow> string list option \<Rightarrow> formik \<Rightarrow> fields_view" where
  "InventorySourceFormFields sourceOptions custom_virtualenvs ctx =
     (let vals = ctx_values ctx;
          sourceField_value = getProp vals ''source'';
          venvField_value = getProp vals ''custom_virtualenv''
      in \<lparr>name_field =
             \<lparr>fld_id = ''name'', fld_label = ''Name'', fld_name = ''name'',
              fld_type = ''text'', fld_isRequired = True\<rparr>,
           description_field =
             \<lparr>fld_id = ''description'', fld_label = ''Description'', fld_name = ''description'',
              fld_type = ''text'', fld_isRequired = False\<rparr>,
           source_select =
             \<lparr>sel_id = ''source'', sel_name = ''source'', sel_value = sourceField_value,
              sel_data =
                \<lparr>opt_label = ''Choose a source'', opt_key = '''', opt_value = '''',
                 isDisabled = True\<rparr>
                # buildSourceChoiceOptions sourceOptions\<rparr>,
           venv_select =
             (case custom_virtualenvs of
                None \<Rightarrow> None
              | Some venvs \<Rightarrow>
                  if length venvs > 1
                  then Some
                         \<lparr>sel_id = ''custom-virtualenv'', sel_name = ''custom_virtualenv'',
                          sel_value = venvField_value,
                          sel_data =
                            defaultVenv
                            # map (\<lambda>v. \<lparr>opt_label = v, opt_key = v, opt_value = v,
                                        isDisabled = False\<rparr>)
                                (filter (\<lambda>v. v \<noteq> opt_value defaultVenv) venvs)\<rparr>
                  else None),
           source_details =
             (if sourceField_value \<noteq> JStr ''''
              then Some \<lparr>layout_title = ''Source details'',
                         layout_body = subFormFor sourceOptions sourceField_value\<rparr>
              else None)\<rparr>)"

section \<open>Loading the options\<close>

text \<open>
  The three results of the request hook that the component reads: \<^verbatim>\<open>isLoading\<close>
  (bound to \<^verbatim>\<open>isSourceOptionsLoading\<close>), \<^verbatim>\<open>error\<close> (bound to \<^verbatim>\<open>sourceOptionsError\<close>;
  \<open>None\<close> for \<^verbatim>\<open>null\<close>, otherwise the failure the request was rejected with) and
  \<^verbatim>\<open>result\<close> (bound to \<^verbatim>\<open>sourceOptions\<close>; \<open>None\<close> for the initial \<^verbatim>\<open>null\<close>, otherwise
  the payload).
\<close>

record 'e request =
  req_isLoading :: bool
  req_error :: "'e option"
  req_result :: "source_options option"

datatype 'e view =
    ContentError 'e
  | ContentLoading
  | FormView fields_view "jsval option"

text \<open>
  \<^verbatim>\<open>InventorySourceForm\<close>: the error indicator, the loading indicator, or the form with its
  fields and, for a truthy \<^verbatim>\<open>submitError\<close> prop, the inline submit error.  The form engine
  holds \<open>ctx\<close> between renders; it starts as \<open>mountFormik source\<close>.
\<close>

definition InventorySourceForm ::
    "jsval \<Rightarrow> 'e request \<Rightarrow> string list option \<Rightarrow> formik \<Rightarrow> 'e view" where
  "InventorySourceForm submitError req custom_virtualenvs ctx =
     (case req_error req of
        Some err \<Rightarrow> ContentError err
      | None \<Rightarrow>
          (case req_result req of
             None \<Rightarrow> ContentLoading
           | Some opts \<Rightarrow>
               if req_isLoading req then ContentLoading
               else FormView (InventorySourceFormFields opts custom_virtualenvs ctx)
                      (if truthy submitError then Some submitError else None)))"

text \<open>
  Modelled from the spec: the request hook \<^verbatim>\<open>util/useRequest\<close> is not among the sources.
  The specification gives its states, \<^verbatim>\<open>idle\<close>, \<^verbatim>\<open>loading\<close> (the request is issued on
  mount), then \<^verbatim>\<open>error\<close> or \<^verbatim>\<open>ready\<close>; a failure leads to \<^verbatim>\<open>error\<close>, which no event
  leaves, and the request is issued once per mount.
\<close>

datatype 'e load_state = Idle | Loading | Failed 'e | Ready source_options

datatype 'e load_event = Mount | Resolved source_options | Rejected 'e

fun load_step :: "'e load_state \<Rightarrow> 'e load_event \<Rightarrow> 'e load_state" where
  "load_step Idle Mount = Loading"
| "load_step Loading (Resolved payload) = Ready payload"
| "load_step Loading (Rejected err) = Failed err"
| "load_step s ev = s"

definition useRequest :: "'e load_state \<Rightarrow> 'e request" where
  "useRequest s =
     (case s of
        Idle \<Rightarrow>
          \<lparr>req_isLoading = False, req_error = None, req_result = None\<rparr>
      | Loading \<Rightarrow>
          \<lparr>req_isLoading = True, req_error = None, req_result = None\<rparr>
      | Failed err \<Rightarrow>
          \<lparr>req_isLoading = False, req_error = Some err, req_result = None\<rparr>
      | Ready payload \<Rightarrow>
          \<lparr>req_isLoading = False, req_error = None,
           req_result = Some payload\<rparr>)"

section \<open>Validation and submission\<close>

text \<open>
  Modelled from the spec: the validator factory \<^verbatim>\<open>util/validators.required\<close> is not among
  the sources.  The specification says that an empty value of a required field is a
  validation error with a fixed message; the message is the one given to the factory, or the
  factory's own when it is given \<^verbatim>\<open>null\<close>.
\<close>

datatype validation_error = Message string | BuiltinMessage

definition required :: "string option \<Rightarrow> jsval \<Rightarrow> validation_error option" where
  "required message v =
     (if v = JStr ''''
      then Some (case message of Some m \<Rightarrow> Message m | None \<Rightarrow> BuiltinMessage)
      else None)"

text \<open>The validators the component declares: on \<^verbatim>\<open>name\<close> and on \<^verbatim>\<open>source\<close>.\<close>

definition fieldValidators :: "(string \<times> (jsval \<Rightarrow> validation_error option)) list" where
  "fieldValidators =
     [(''name'', required None),
      (''source'', required (Some ''Set a value for this field''))]"

definition validateForm :: "formik \<Rightarrow> (string \<times> validation_error) list" where
  "validateForm ctx =
     concat (map (\<lambda>(field, validate).
                    case validate (getProp (ctx_values ctx) field) of
                      Some e \<Rightarrow> [(field, e)]
                    | None \<Rightarrow> [])
                 fieldValidators)"

text \<open>
  Modelled from the spec: the form engine's submit handler.  A field validation failure
  blocks the submit; otherwise the function given as \<^verbatim>\<open>onSubmit\<close> to the engine runs, which
  is \<^verbatim>\<open>values => { onSubmit(values); }\<close>: the prop is called with the working values.
\<close>

datatype submit_outcome =
    Blocked "(string \<times> validation_error) list"
  | OnSubmit jsobject

definition handleSubmit :: "formik \<Rightarrow> submit_outcome" where
  "handleSubmit ctx =
     (case validateForm ctx of
        [] \<Rightarrow> OnSubmit (ctx_values ctx)
      | e # es \<Rightarrow> Blocked (e # es))"

text \<open>
  What happens to a mounted form: a field is written (by an input, a select or a sub-form),
  or a source type is picked in the source select, whose \<^verbatim>\<open>onChange\<close> is
  \<^verbatim>\<open>resetSubFormFields\<close>.  A write is \<open>declared\<close> when it gives one of the eighteen fields
  of the form a value other than \<^verbatim>\<open>undefined\<close>.
\<close>

datatype action = Edit string jsval | SelectSource string

fun perform :: "formik \<Rightarrow> action \<Rightarrow> formik" where
  "perform ctx (Edit field v) = setFieldValue field v ctx"
| "perform ctx (SelectSource sourceType) = resetSubFormFields ctx sourceType"



section \<open>Properties of the object operations\<close>

lemma map_of_setProp: "map_of (setProp k v ps) = (map_of ps)(k \<mapsto> v)"
  by (induction ps) (auto simp: fun_eq_iff)

lemma getProp_setProp: "getProp (setProp k v ps) k' = (if k' = k then v else getProp ps k')"
  by (simp add: getProp_def map_of_setProp)


lemma setProp_same: "map_of ps k = Some v \<Longrightarrow> setProp k v ps = ps"
  by (induction ps) (auto split: if_splits)

lemma setIn_defined: "v \<noteq> JUndefined \<Longrightarrow> setIn ps k v = setProp k v ps"
proof (cases "getProp ps k = v")
  case True
  assume "v \<noteq> JUndefined"
  with True have "map_of ps k = Some v"
    by (auto simp: getProp_def split: option.splits)
  then show ?thesis
    using True by (simp add: setIn_def setProp_same)
next
  case False
  assume "v \<noteq> JUndefined"
  with False show ?thesis by (simp add: setIn_def)
qed

lemma ctx_values_setFieldValue:
  "v \<noteq> JUndefined \<Longrightarrow> ctx_values (setFieldValue k v c) = setProp k v (ctx_values c)"
  by (simp add: setFieldValue_def setIn_defined)

lemma ctx_initialValues_setFieldValue:
  "ctx_initialValues (setFieldValue k v c) = ctx_initialValues c"
  by (simp add: setFieldValue_def)

section \<open>Properties of the reset routine\<close>

lemma reset_other_values:
  assumes "getProp (ctx_initialValues ctx) ''source'' \<noteq> JStr sourceType"
  shows "map_of (ctx_values (resetSubFormFields ctx sourceType)) =
           map_of (ctx_values ctx) ++ map_of (defaults sourceType)"
proof -
  have "JStr sourceType \<noteq> getProp (ctx_initialValues ctx) ''source''"
    using assms by (rule not_sym)
  then have "ctx_values (resetSubFormFields ctx sourceType) =
      setProp ''verbosity'' (JNum 1)
       (setProp ''update_on_project_update'' (JBool False)
        (setProp ''update_on_launch'' (JBool False)
         (setProp ''update_cache_timeout'' (JNum 0)
          (setProp ''source_vars'' (JStr (''---'' @ [CHR 0x0A]))
           (setProp ''source_script'' JNull
            (setProp ''source_regions'' (JStr '''')
             (setProp ''source_project'' JNull
              (setProp ''source_path'' (JStr '''')
               (setProp ''source'' (JStr sourceType)
                (setProp ''overwrite_vars'' (JBool False)
                 (setProp ''overwrite'' (JBool False)
                  (setProp ''instance_filters'' (JStr '''')
                   (setProp ''group_by'' (JStr '''')
                    (setProp ''credential'' JNull (ctx_values ctx)))))))))))))))"
    by (simp add: resetSubFormFields_def defaults_def Object_keys_def
        ctx_values_setFieldValue getProp_def)
  then show ?thesis
    by (simp add: map_of_setProp defaults_def fun_eq_iff map_add_def)
qed

lemma reset_same_values:
  assumes "getProp (ctx_initialValues ctx) ''source'' = JStr sourceType"
  shows "ctx_values (resetSubFormFields ctx sourceType) =
           setProp ''source'' (JStr sourceType)
             (setProp ''custom_virtualenv'' (getProp (ctx_values ctx) ''custom_virtualenv'')
               (setProp ''description'' (getProp (ctx_values ctx) ''description'')
                 (setProp ''name'' (getProp (ctx_values ctx) ''name'')
                   (ctx_initialValues ctx))))"
  using assms by (simp add: resetSubFormFields_def resetForm_def)


lemma foldl_setFieldValue_initialValues:
  "ctx_initialValues (foldl (\<lambda>c label. setFieldValue label (f label) c) ctx ks) =
     ctx_initialValues ctx"
  by (induction ks arbitrary: ctx) (simp_all add: ctx_initialValues_setFieldValue)







text \<open>
  The engine's initial values change only when the original type is selected again, and
  then only in the three fields that are taken from the working values.
\<close>

lemma perform_initial_frame:
  assumes "k \<notin> {''name'', ''description'', ''custom_virtualenv''}"
  shows "map_of (ctx_initialValues (perform ctx a)) k = map_of (ctx_initialValues ctx) k"
proof (cases a)
  case (Edit field x)
  then show ?thesis by (simp add: ctx_initialValues_setFieldValue)
next
  case (SelectSource sourceType)
  show ?thesis
  proof (cases "JStr sourceType = getProp (ctx_initialValues ctx) ''source''")
    case True
    then have "map_of (ctx_initialValues ctx) ''source'' = Some (JStr sourceType)"
      by (simp add: getProp_def split: option.splits)
    then show ?thesis
      using True SelectSource assms
      by (simp add: resetSubFormFields_def resetForm_def map_of_setProp)
  next
    case False
    then show ?thesis
      using SelectSource
      by (simp add: resetSubFormFields_def foldl_setFieldValue_initialValues)
  qed
qed

lemma run_initial_frame:
  assumes "k \<notin> {''name'', ''description'', ''custom_virtualenv''}"
  shows "map_of (ctx_initialValues (foldl perform ctx acts)) k = map_of (ctx_initialValues ctx) k"
  by (induction acts arbitrary: ctx) (simp_all add: perform_initial_frame [OF assms])

text \<open>
  So the initial source that the reset routine compares with stays the source type of the
  entity the form was mounted on (the empty string when there is none).
\<close>

lemma mounted_initial_source:
  "getProp (ctx_initialValues (foldl perform (mountFormik source) acts)) ''source'' =
     orElse (optChain source ''source'') (JStr '''')"
proof -
  have "map_of (ctx_initialValues (foldl perform (mountFormik source) acts)) ''source'' =
        map_of (ctx_initialValues (mountFormik source)) ''source''"
    by (rule run_initial_frame) simp
  then show ?thesis
    by (simp add: getProp_def mountFormik_def initialValues_def)
qed

lemma run_Failed: "foldl load_step (Failed err) evs = Failed err"
  by (induction evs) simp_all

section \<open>Properties of the form\<close>

text \<open>
  C1.  Selecting a source type other than the one the form started with (the initial
  source of the engine, which is the entity's, see \<open>mounted_initial_source\<close>): whatever the
  form state, the reset routine sets credential to null, group_by, instance_filters, source_path
  and source_regions to the empty string, overwrite, overwrite_vars, update_on_launch and
  update_on_project_update to false, source_project and source_script to null, source_vars
  to "---" followed by a newline, update_cache_timeout to 0, verbosity to 1 and source to
  the selected code; name, description and custom_virtualenv keep what they had, and so does
  every property outside these fifteen.
\<close>

theorem resetSubFormFields_other_type:
  assumes "getProp (ctx_initialValues ctx) ''source'' \<noteq> JStr sourceType"
  shows "let vs = ctx_values ctx; vs' = ctx_values (resetSubFormFields ctx sourceType) in
           getProp vs' ''credential'' = JNull \<and>
           getProp vs' ''group_by'' = JStr '''' \<and>
           getProp vs' ''instance_filters'' = JStr '''' \<and>
           getProp vs' ''overwrite'' = JBool False \<and>
           getProp vs' ''overwrite_vars'' = JBool False \<and>
           getProp vs' ''source_path'' = JStr '''' \<and>
           getProp vs' ''source_project'' = JNull \<and>
           getProp vs' ''source_regions'' = JStr '''' \<and>
           getProp vs' ''source_script'' = JNull \<and>
           getProp vs' ''source_vars'' = JStr (''---'' @ [CHR 0x0A]) \<and>
           getProp vs' ''update_cache_timeout'' = JNum 0 \<and>
           getProp vs' ''update_on_launch'' = JBool False \<and>
           getProp vs' ''update_on_project_update'' = JBool False \<and>
           getProp vs' ''verbosity'' = JNum 1 \<and>
           getProp vs' ''source'' = JStr sourceType \<and>
           map_of vs' ''name'' = map_of vs ''name'' \<and>
           map_of vs' ''description'' = map_of vs ''description'' \<and>
           map_of vs' ''custom_virtualenv'' = map_of vs ''custom_virtualenv'' \<and>
           (\<forall>k. k \<notin> {''credential'', ''group_by'', ''instance_filters'', ''overwrite'',
                      ''overwrite_vars'', ''source'', ''source_path'', ''source_project'',
                      ''source_regions'', ''source_script'', ''source_vars'',
                      ''update_cache_timeout'', ''update_on_launch'',
                      ''update_on_project_update'', ''verbosity''}
                \<longrightarrow> map_of vs' k = map_of vs k)"
  unfolding Let_def getProp_def reset_other_values [OF assms]
  by (simp add: defaults_def map_add_def)

theorem resetSubFormFields_other_type_witness:
  "getProp (ctx_initialValues
       (mountFormik (JObj [(''name'', JStr ''web''), (''source'', JStr ''scm'')])))
     ''source'' \<noteq> JStr ''ec2'' \<and>
   (let vs' = ctx_values (resetSubFormFields
                (mountFormik (JObj [(''name'', JStr ''web''), (''source'', JStr ''scm'')]))
                ''ec2'')
    in getProp vs' ''source'' = JStr ''ec2'' \<and>
       getProp vs' ''verbosity'' = JNum 1 \<and>
       getProp vs' ''source_path'' = JStr '''' \<and>
       map_of vs' ''name'' = Some (JStr ''web''))"
proof -
  let ?ctx = "mountFormik (JObj [(''name'', JStr ''web''), (''source'', JStr ''scm'')])"
  have h: "getProp (ctx_initialValues ?ctx) ''source'' \<noteq> JStr ''ec2''"
    by (simp add: mountFormik_def initialValues_def getProp_def orElse_def)
  have n: "map_of (ctx_values ?ctx) ''name'' = Some (JStr ''web'')"
    by (simp add: mountFormik_def initialValues_def getProp_def orElse_def)
  from resetSubFormFields_other_type [OF h] n h show ?thesis
    by (simp add: Let_def)
qed

text \<open>
  C2.  Selecting the source type the form started with: whatever the form state, name,
  description and custom_virtualenv keep their current values and every other property
  takes the value it has in the engine's initial values.  For a form mounted on a source and
  then edited and switched in any way, these are the values the form was mounted with.
\<close>

theorem resetSubFormFields_original_type:
  "(getProp (ctx_initialValues ctx) ''source'' = JStr sourceType \<longrightarrow>
      (let vs = ctx_values ctx; vs' = ctx_values (resetSubFormFields ctx sourceType) in
         getProp vs' ''name'' = getProp vs ''name'' \<and>
         getProp vs' ''description'' = getProp vs ''description'' \<and>
         getProp vs' ''custom_virtualenv'' = getProp vs ''custom_virtualenv'' \<and>
         (\<forall>k. k \<notin> {''name'', ''description'', ''custom_virtualenv''}
              \<longrightarrow> map_of vs' k = map_of (ctx_initialValues ctx) k))) \<and>
   (getProp (initialValues source) ''source'' = JStr sourceType \<longrightarrow>
      (let vs = ctx_values (foldl perform (mountFormik source) acts);
           vs' = ctx_values
                   (resetSubFormFields (foldl perform (mountFormik source) acts) sourceType)
       in
         getProp vs' ''name'' = getProp vs ''name'' \<and>
         getProp vs' ''description'' = getProp vs ''description'' \<and>
         getProp vs' ''custom_virtualenv'' = getProp vs ''custom_virtualenv'' \<and>
         (\<forall>k. k \<notin> {''name'', ''description'', ''custom_virtualenv''}
              \<longrightarrow> map_of vs' k = map_of (initialValues source) k)))"
proof -
  have general: "let vs = ctx_values c; vs' = ctx_values (resetSubFormFields c sourceType) in
         getProp vs' ''name'' = getProp vs ''name'' \<and>
         getProp vs' ''description'' = getProp vs ''description'' \<and>
         getProp vs' ''custom_virtualenv'' = getProp vs ''custom_virtualenv'' \<and>
         (\<forall>k. k \<notin> {''name'', ''description'', ''custom_virtualenv''}
              \<longrightarrow> map_of vs' k = map_of (ctx_initialValues c) k)"
    if eq: "getProp (ctx_initialValues c) ''source'' = JStr sourceType" for c
  proof -
    have src: "map_of (ctx_initialValues c) ''source'' = Some (JStr sourceType)"
      using eq by (simp add: getProp_def split: option.splits)
    show ?thesis
      unfolding Let_def reset_same_values [OF eq]
      using src by (simp add: getProp_setProp map_of_setProp)
  qed
  have mounted: "let vs = ctx_values (foldl perform (mountFormik source) acts);
           vs' = ctx_values
                   (resetSubFormFields (foldl perform (mountFormik source) acts) sourceType)
       in
         getProp vs' ''name'' = getProp vs ''name'' \<and>
         getProp vs' ''description'' = getProp vs ''description'' \<and>
         getProp vs' ''custom_virtualenv'' = getProp vs ''custom_virtualenv'' \<and>
         (\<forall>k. k \<notin> {''name'', ''description'', ''custom_virtualenv''}
              \<longrightarrow> map_of vs' k = map_of (initialValues source) k)"
    if eq: "getProp (initialValues source) ''source'' = JStr sourceType"
  proof -
    let ?c = "foldl perform (mountFormik source) acts"
    have frame: "map_of (ctx_initialValues ?c) k = map_of (initialValues source) k"
      if "k \<notin> {''name'', ''description'', ''custom_virtualenv''}" for k
      using run_initial_frame [OF that, of "mountFormik source" acts]
      by (simp add: mountFormik_def)
    have "map_of (ctx_initialValues ?c) ''source'' = map_of (initialValues source) ''source''"
      by (rule frame) simp
    then have "getProp (ctx_initialValues ?c) ''source'' = JStr sourceType"
      using eq by (simp add: getProp_def)
    from general [OF this] frame show ?thesis
      by (simp add: Let_def)
  qed
  from general mounted show ?thesis by blast
qed

theorem resetSubFormFields_original_type_witness:
  "getProp (initialValues (JObj [(''name'', JStr ''web''), (''source'', JStr ''scm'')]))
     ''source'' = JStr ''scm'' \<and>
   (let vs' = ctx_values
                (resetSubFormFields
                  (foldl perform
                    (mountFormik (JObj [(''name'', JStr ''web''), (''source'', JStr ''scm'')]))
                    [Edit ''name'' (JStr ''edited''), SelectSource ''ec2'',
                     Edit ''source_regions'' (JStr ''us-east-1'')])
                  ''scm'')
    in getProp vs' ''name'' = JStr ''edited'' \<and>
       map_of vs' ''source_regions'' = Some (JStr '''') \<and>
       map_of vs' ''source'' = Some (JStr ''scm''))"
proof -
  let ?src = "JObj [(''name'', JStr ''web''), (''source'', JStr ''scm'')]"
  let ?acts = "[Edit ''name'' (JStr ''edited''), SelectSource ''ec2'',
                Edit ''source_regions'' (JStr ''us-east-1'')]"
  have h: "getProp (initialValues ?src) ''source'' = JStr ''scm''"
    by (simp add: initialValues_def getProp_def orElse_def)
  have other: "getProp (ctx_initialValues (setFieldValue ''name'' (JStr ''edited'')
                 (mountFormik ?src))) ''source'' \<noteq> JStr ''ec2''"
    by (simp add: ctx_initialValues_setFieldValue mountFormik_def initialValues_def
        getProp_def orElse_def)
  have "map_of (ctx_values (resetSubFormFields (setFieldValue ''name'' (JStr ''edited'')
          (mountFormik ?src)) ''ec2'')) ''name'' = Some (JStr ''edited'')"
    unfolding reset_other_values [OF other]
    by (simp add: defaults_def map_add_def ctx_values_setFieldValue map_of_setProp)
  then have n: "getProp (ctx_values (foldl perform (mountFormik ?src) ?acts)) ''name'' =
      JStr ''edited''"
    by (simp add: ctx_values_setFieldValue getProp_def map_of_setProp)
  have i: "map_of (initialValues ?src) ''source_regions'' = Some (JStr '''') \<and>
           map_of (initialValues ?src) ''source'' = Some (JStr ''scm'')"
    by (simp add: initialValues_def getProp_def orElse_def)
  from resetSubFormFields_original_type
         [where sourceType = "''scm''" and source = ?src and acts = ?acts] h n i
  show ?thesis
    by (simp add: Let_def)
qed

text \<open>
  C3.  The choices built from an options payload never have the code "file", as key or as
  value; every choice of the payload whose code is not "file" is among them with its label;
  they are the payload's choices other than "file", in the payload's order; from the
  choices ec2 "Amazon EC2" and file "File" only "Amazon EC2" is built; and the options of
  the source select that are not disabled are exactly the built choices.
\<close>

theorem buildSourceChoiceOptions_excludes_file:
  "(\<forall>opt \<in> set (buildSourceChoiceOptions options).
       opt_key opt \<noteq> ''file'' \<and> opt_value opt \<noteq> ''file'') \<and>
   (\<forall>(choice, label) \<in> set (choices options).
       choice \<noteq> ''file'' \<longrightarrow>
       \<lparr>opt_label = label, opt_key = choice, opt_value = choice, isDisabled = False\<rparr>
         \<in> set (buildSourceChoiceOptions options)) \<and>
   map (\<lambda>opt. (opt_key opt, opt_label opt)) (buildSourceChoiceOptions options) =
     filter (\<lambda>(choice, label). choice \<noteq> ''file'') (choices options) \<and>
   buildSourceChoiceOptions \<lparr>choices = [(''ec2'', ''Amazon EC2''), (''file'', ''File'')]\<rparr> =
     [\<lparr>opt_label = ''Amazon EC2'', opt_key = ''ec2'', opt_value = ''ec2'', isDisabled = False\<rparr>] \<and>
   filter (\<lambda>opt. \<not> isDisabled opt)
     (sel_data (source_select (InventorySourceFormFields options custom_virtualenvs ctx))) =
     buildSourceChoiceOptions options"
proof -
  have shape: "buildSourceChoiceOptions options =
      map (\<lambda>(choice, label).
             \<lparr>opt_label = label, opt_key = choice, opt_value = choice, isDisabled = False\<rparr>)
          (filter (\<lambda>(choice, label). choice \<noteq> ''file'') (choices options))"
    by (simp add: buildSourceChoiceOptions_def filter_map comp_def case_prod_unfold)
  have a: "\<forall>opt \<in> set (buildSourceChoiceOptions options).
       opt_key opt \<noteq> ''file'' \<and> opt_value opt \<noteq> ''file''"
    unfolding shape by auto
  have b: "\<forall>(choice, label) \<in> set (choices options).
       choice \<noteq> ''file'' \<longrightarrow>
       \<lparr>opt_label = label, opt_key = choice, opt_value = choice, isDisabled = False\<rparr>
         \<in> set (buildSourceChoiceOptions options)"
    unfolding shape by force
  have c: "map (\<lambda>opt. (opt_key opt, opt_label opt)) (buildSourceChoiceOptions options) =
     filter (\<lambda>(choice, label). choice \<noteq> ''file'') (choices options)"
    unfolding shape by (simp add: comp_def case_prod_unfold)
  have d: "buildSourceChoiceOptions \<lparr>choices = [(''ec2'', ''Amazon EC2''), (''file'', ''File'')]\<rparr> =
     [\<lparr>opt_label = ''Amazon EC2'', opt_key = ''ec2'', opt_value = ''ec2'', isDisabled = False\<rparr>]"
    by (simp add: buildSourceChoiceOptions_def)
  have "\<forall>opt \<in> set (buildSourceChoiceOptions options). \<not> isDisabled opt"
    unfolding shape by auto
  then have e: "filter (\<lambda>opt. \<not> isDisabled opt)
     (sel_data (source_select (InventorySourceFormFields options custom_virtualenvs ctx))) =
     buildSourceChoiceOptions options"
    by (simp add: InventorySourceFormFields_def Let_def)
  from a b c d e show ?thesis by blast
qed

theorem buildSourceChoiceOptions_excludes_file_witness:
  "(''scm'', ''Sourced from a Project'')
     \<in> set (choices \<lparr>choices = [(''file'', ''File''), (''scm'', ''Sourced from a Project'')]\<rparr>) \<and>
   ''scm'' \<noteq> ''file'' \<and>
   \<lparr>opt_label = ''Sourced from a Project'', opt_key = ''scm'', opt_value = ''scm'',
    isDisabled = False\<rparr>
     \<in> set (buildSourceChoiceOptions
              \<lparr>choices = [(''file'', ''File''), (''scm'', ''Sourced from a Project'')]\<rparr>) \<and>
   map opt_key (buildSourceChoiceOptions
              \<lparr>choices = [(''file'', ''File''), (''scm'', ''Sourced from a Project'')]\<rparr>) =
     [''scm'']"
proof -
  let ?o = "\<lparr>choices = [(''file'', ''File''), (''scm'', ''Sourced from a Project'')]\<rparr>"
  have m: "map opt_key (buildSourceChoiceOptions ?o) =
             map fst (map (\<lambda>opt. (opt_key opt, opt_label opt)) (buildSourceChoiceOptions ?o))"
    by (simp add: comp_def)
  from buildSourceChoiceOptions_excludes_file [of ?o] have
    "\<forall>(choice, label) \<in> set (choices ?o).
       choice \<noteq> ''file'' \<longrightarrow>
       \<lparr>opt_label = label, opt_key = choice, opt_value = choice, isDisabled = False\<rparr>
         \<in> set (buildSourceChoiceOptions ?o)"
    and "map (\<lambda>opt. (opt_key opt, opt_label opt)) (buildSourceChoiceOptions ?o) =
           filter (\<lambda>(choice, label). choice \<noteq> ''file'') (choices ?o)"
    by blast+
  then show ?thesis
    unfolding m by simp
qed

text \<open>
  C4.  A request whose error is set renders the error indicator with that error, whatever
  else the request holds, so the form is not rendered.  After the fetch issued on mount is
  rejected, every later render is the error indicator with that failure, whatever events
  follow.
\<close>

theorem options_error_is_terminal:
  "(\<forall>req. req_error req = Some err \<longrightarrow>
       InventorySourceForm submitError req custom_virtualenvs ctx = ContentError err) \<and>
   (\<forall>evs. InventorySourceForm submitError
            (useRequest (foldl load_step Idle (Mount # Rejected err # evs)))
            custom_virtualenvs ctx = ContentError err)"
  by (simp add: InventorySourceForm_def run_Failed useRequest_def)

theorem options_error_is_terminal_witness:
  "req_error \<lparr>req_isLoading = False, req_error = Some ''Network Error'',
              req_result = Some \<lparr>choices = []\<rparr>\<rparr> = Some ''Network Error'' \<and>
   InventorySourceForm JNull
     \<lparr>req_isLoading = False, req_error = Some ''Network Error'',
      req_result = Some \<lparr>choices = []\<rparr>\<rparr>
     None (mountFormik JNull) = ContentError ''Network Error'' \<and>
   InventorySourceForm JNull
     (useRequest (foldl load_step Idle
        [Mount, Rejected ''Network Error'', Mount, Resolved \<lparr>choices = []\<rparr>]))
     None (mountFormik JNull) = ContentError ''Network Error''"
proof -
  note t = options_error_is_terminal [of "''Network Error''" JNull None "mountFormik JNull"]
  have h: "req_error \<lparr>req_isLoading = False, req_error = Some ''Network Error'',
              req_result = Some \<lparr>choices = []\<rparr>\<rparr> = Some ''Network Error''"
    by simp
  have a: "InventorySourceForm JNull
     \<lparr>req_isLoading = False, req_error = Some ''Network Error'',
      req_result = Some \<lparr>choices = []\<rparr>\<rparr>
     None (mountFormik JNull) = ContentError ''Network Error''"
    using t h by blast
  have b: "InventorySourceForm JNull
     (useRequest (foldl load_step Idle
        [Mount, Rejected ''Network Error'', Mount, Resolved \<lparr>choices = []\<rparr>]))
     None (mountFormik JNull) = ContentError ''Network Error''"
    using t by blast
  from h a b show ?thesis by blast
qed




text \<open>
  C6.  While the source field is the empty string, the validator declared on it answers
  with the message "Set a value for this field", the validation of the form reports that
  error for the source field, and the submit handler does not call the submit callback.
\<close>

theorem empty_source_blocks_submit:
  assumes "getProp (ctx_values ctx) ''source'' = JStr ''''"
  shows "required (Some ''Set a value for this field'') (getProp (ctx_values ctx) ''source'') =
           Some (Message ''Set a value for this field'') \<and>
         (''source'', Message ''Set a value for this field'') \<in> set (validateForm ctx) \<and>
         (\<forall>vs. handleSubmit ctx \<noteq> OnSubmit vs)"
  using assms
  by (auto simp: required_def validateForm_def fieldValidators_def handleSubmit_def
      split: list.splits)

theorem empty_source_blocks_submit_witness:
  "getProp (ctx_values (setFieldValue ''name'' (JStr ''web'') (mountFormik JUndefined)))
     ''source'' = JStr '''' \<and>
   handleSubmit (setFieldValue ''name'' (JStr ''web'') (mountFormik JUndefined)) =
     Blocked [(''source'', Message ''Set a value for this field'')]"
proof -
  let ?c = "setFieldValue ''name'' (JStr ''web'') (mountFormik JUndefined)"
  have h: "getProp (ctx_values ?c) ''source'' = JStr ''''"
    by (simp add: ctx_values_setFieldValue getProp_setProp mountFormik_def initialValues_def
        getProp_def orElse_def)
  have n: "getProp (ctx_values ?c) ''name'' = JStr ''web''"
    by (simp add: ctx_values_setFieldValue getProp_setProp)
  have "validateForm ?c = [(''source'', Message ''Set a value for this field'')]"
    using h n by (simp add: validateForm_def fieldValidators_def required_def)
  with empty_source_blocks_submit [OF h] h show ?thesis
    by (simp add: handleSubmit_def)
qed

text \<open>
  C7.  The environment select is rendered exactly when the configuration has a list of
  environments with more than one entry: not without a list, not for an empty list or a
  list of one.  When it is rendered it is bound to custom_virtualenv, its first option is
  the default environment with value "/venv/ansible/", and the options after it are the
  configured paths other than "/venv/ansible/", in their order, each with the path as
  label, key and value.
\<close>

theorem venv_select_rendering:
  "(custom_virtualenvs = None \<longrightarrow>
      venv_select (InventorySourceFormFields opts custom_virtualenvs ctx) = None) \<and>
   (\<forall>venvs. custom_virtualenvs = Some venvs \<longrightarrow>
      (length venvs \<le> 1 \<longrightarrow>
         venv_select (InventorySourceFormFields opts custom_virtualenvs ctx) = None) \<and>
      (length venvs > 1 \<longrightarrow>
         (\<exists>sel rest.
            venv_select (InventorySourceFormFields opts custom_virtualenvs ctx) = Some sel \<and>
            sel_name sel = ''custom_virtualenv'' \<and>
            sel_value sel = getProp (ctx_values ctx) ''custom_virtualenv'' \<and>
            sel_data sel = defaultVenv # rest \<and>
            opt_value defaultVenv = ''/venv/ansible/'' \<and>
            map opt_value rest = filter (\<lambda>v. v \<noteq> ''/venv/ansible/'') venvs \<and>
            (\<forall>opt \<in> set rest. opt_label opt = opt_value opt \<and> opt_key opt = opt_value opt \<and>
                                opt_value opt \<noteq> ''/venv/ansible/''))))"
  by (auto simp: InventorySourceFormFields_def Let_def defaultVenv_def comp_def)

theorem venv_select_rendering_witness:
  "length [''/venv/ansible/'', ''/venv/custom/'', ''/venv/ansible/''] > 1 \<and>
   (\<exists>sel. venv_select (InventorySourceFormFields \<lparr>choices = []\<rparr>
                 (Some [''/venv/ansible/'', ''/venv/custom/'', ''/venv/ansible/''])
                 (mountFormik JNull)) = Some sel \<and>
          sel_name sel = ''custom_virtualenv'' \<and>
          map opt_value (sel_data sel) = [''/venv/ansible/'', ''/venv/custom/''])"
  using venv_select_rendering
          [of "Some [''/venv/ansible/'', ''/venv/custom/'', ''/venv/ansible/'']"
              "\<lparr>choices = []\<rparr>" "mountFormik JNull"]
  by auto

text \<open>
  C8.  While the source field is the empty string, neither the "Source details" heading nor
  a sub-form is rendered.  While it is one of the codes azure_rm, cloudforms, custom, ec2,
  gce, openstack, rhv, satellite6, scm, tower and vmware, the heading is rendered with one
  child, the sub-form stored under that code.
\<close>

theorem source_details_rendering:
  "(getProp (ctx_values ctx) ''source'' = JStr '''' \<longrightarrow>
      source_details (InventorySourceFormFields opts custom_virtualenvs ctx) = None) \<and>
   (\<forall>(code, el) \<in> set [(''azure_rm'', AzureSubForm opts),
                         (''cloudforms'', CloudFormsSubForm),
                         (''custom'', CustomScriptSubForm),
                         (''ec2'', EC2SubForm opts),
                         (''gce'', GCESubForm opts),
                         (''openstack'', OpenStackSubForm),
                         (''rhv'', VirtualizationSubForm),
                         (''satellite6'', SatelliteSubForm),
                         (''scm'', SCMSubForm),
                         (''tower'', TowerSubForm),
                         (''vmware'', VMwareSubForm opts)].
      getProp (ctx_values ctx) ''source'' = JStr code \<longrightarrow>
      source_details (InventorySourceFormFields opts custom_virtualenvs ctx) =
        Some \<lparr>layout_title = ''Source details'', layout_body = Element el\<rparr>)"
  by (simp add: InventorySourceFormFields_def Let_def subFormFor_def subFormTable_def)

theorem source_details_rendering_witness:
  "getProp (ctx_values (mountFormik (JObj [(''source'', JStr ''ec2'')]))) ''source'' =
     JStr ''ec2'' \<and>
   source_details (InventorySourceFormFields \<lparr>choices = []\<rparr> None
                     (mountFormik (JObj [(''source'', JStr ''ec2'')]))) =
     Some \<lparr>layout_title = ''Source details'',
           layout_body = Element (EC2SubForm \<lparr>choices = []\<rparr>)\<rparr> \<and>
   getProp (ctx_values (mountFormik JNull)) ''source'' = JStr '''' \<and>
   source_details (InventorySourceFormFields \<lparr>choices = []\<rparr> None (mountFormik JNull)) = None"
proof -
  have e: "getProp (ctx_values (mountFormik (JObj [(''source'', JStr ''ec2'')]))) ''source'' =
             JStr ''ec2''"
    by (simp add: mountFormik_def initialValues_def getProp_def orElse_def)
  have n: "getProp (ctx_values (mountFormik JNull)) ''source'' = JStr ''''"
    by (simp add: mountFormik_def initialValues_def getProp_def orElse_def)
  from source_details_rendering
         [of "mountFormik (JObj [(''source'', JStr ''ec2'')])" "\<lparr>choices = []\<rparr>" None]
       source_details_rendering [of "mountFormik JNull" "\<lparr>choices = []\<rparr>" None] e n
  show ?thesis by simp
qed

text \<open>
  C9.  The initial source_path is "/ (project root)" when the source_path of the source is
  the empty string, and the empty string in every other case; a source with a non-empty
  source_path starts the form with the empty string.
\<close>

theorem initialValues_source_path:
  "getProp (initialValues source) ''source_path'' =
     (if optChain source ''source_path'' = JStr '''' then JStr ''/ (project root)''
      else JStr '''') \<and>
   (\<forall>ps path. getProp ps ''source_path'' = JStr path \<and> path \<noteq> '''' \<longrightarrow>
      getProp (initialValues (JObj ps)) ''source_path'' = JStr '''')"
  by (simp add: initialValues_def getProp_def)

theorem initialValues_source_path_witness:
  "getProp [(''source_path'', JStr ''inventories/hosts'')] ''source_path'' =
     JStr ''inventories/hosts'' \<and>
   ''inventories/hosts'' \<noteq> '''' \<and>
   getProp (initialValues (JObj [(''source_path'', JStr ''inventories/hosts'')]))
     ''source_path'' = JStr '''' \<and>
   getProp (initialValues (JObj [(''source_path'', JStr '''')])) ''source_path'' =
     JStr ''/ (project root)''"
proof -
  have h: "getProp [(''source_path'', JStr ''inventories/hosts'')] ''source_path'' =
     JStr ''inventories/hosts''"
    by (simp add: getProp_def)
  from initialValues_source_path [of "JObj [(''source_path'', JStr ''inventories/hosts'')]"]
       initialValues_source_path [of "JObj [(''source_path'', JStr '''')]"] h
  show ?thesis by (simp add: getProp_def)
qed

text \<open>
  C10.  A source whose verbosity is 0 starts the form with verbosity 1, as does every source
  whose verbosity is falsy or missing.
\<close>

theorem initialValues_verbosity_zero:
  "(\<forall>ps. getProp ps ''verbosity'' = JNum 0 \<longrightarrow>
         getProp (initialValues (JObj ps)) ''verbosity'' = JNum 1) \<and>
   (\<not> truthy (optChain source ''verbosity'') \<longrightarrow>
         getProp (initialValues source) ''verbosity'' = JNum 1)"
  by (simp add: initialValues_def getProp_def orElse_def)

theorem initialValues_verbosity_zero_witness:
  "getProp [(''name'', JStr ''web''), (''verbosity'', JNum 0)] ''verbosity'' = JNum 0 \<and>
   getProp (initialValues (JObj [(''name'', JStr ''web''), (''verbosity'', JNum 0)]))
     ''verbosity'' = JNum 1"
proof -
  have h: "getProp [(''name'', JStr ''web''), (''verbosity'', JNum 0)] ''verbosity'' = JNum 0"
    by (simp add: getProp_def)
  from initialValues_verbosity_zero h show ?thesis by blast
qed

end
